theory Spec2Isabelle
  imports Complex_Main "HOL-Library.AList" "HOL-Library.Sublist"
begin

section \<open>JavaScript values\<close>

text \<open>
  The client wrapper handles values of type \<^verbatim>\<open>any\<close>: what \<^verbatim>\<open>JSON.parse\<close> returns and
  what is spread into the inserted row. They are modelled as a datatype of JavaScript
  values. An object is an association list of its own enumerable properties in insertion
  order, with distinct keys.
\<close>

datatype js_number = Finite rat | PosInfinity | NegInfinity | NaN

datatype js_value =
    JUndefined
  | JNull
  | JBool bool
  | JNum js_number
  | JStr string
  | JArr "js_value list"
  | JObj "(string \<times> js_value) list"

text \<open>A thrown value: an instance of \<^verbatim>\<open>Error\<close> (with its message), or anything else.\<close>

datatype thrown = Error string | NonError js_value

text \<open>Truthiness, as tested by \<^verbatim>\<open>!x\<close>, \<^verbatim>\<open>if (x)\<close> and \<^verbatim>\<open>x && y\<close>.\<close>

fun ToBoolean :: "js_value \<Rightarrow> bool" where
  "ToBoolean JUndefined = False"
| "ToBoolean JNull = False"
| "ToBoolean (JBool b) = b"
| "ToBoolean (JNum n) = (case n of Finite q \<Rightarrow> q \<noteq> 0 | NaN \<Rightarrow> False | _ \<Rightarrow> True)"
| "ToBoolean (JStr s) = (s \<noteq> [])"
| "ToBoolean (JArr xs) = True"
| "ToBoolean (JObj kvs) = True"

text \<open>
  The property read \<^verbatim>\<open>v.id\<close>: a \<^verbatim>\<open>TypeError\<close> on \<^verbatim>\<open>null\<close> and \<^verbatim>\<open>undefined\<close>, the
  property's value on an object that has it, \<^verbatim>\<open>undefined\<close> otherwise (no primitive,
  array or plain object inherits a property of that name).
\<close>

fun get_id :: "js_value \<Rightarrow> thrown + js_value" where
  "get_id JUndefined = Inl (Error ''Cannot read properties of undefined (reading 'id')'')"
| "get_id JNull = Inl (Error ''Cannot read properties of null (reading 'id')'')"
| "get_id (JObj kvs) = Inr (case map_of kvs ''id'' of None \<Rightarrow> JUndefined | Some v \<Rightarrow> v)"
| "get_id v = Inr JUndefined"

text \<open>Decimal digits of an integer, as a template literal prints a whole number.\<close>

definition digit_char :: "nat \<Rightarrow> char" where
  "digit_char d = ''0123456789'' ! d"

function show_nat :: "nat \<Rightarrow> string" where
  "show_nat n = (if n < 10 then [digit_char n] else show_nat (n div 10) @ [digit_char (n mod 10)])"
  by pat_completeness auto
termination
  by (relation "measure id") auto

declare show_nat.simps [simp del]

definition show_int :: "int \<Rightarrow> string" where
  "show_int i = (if i < 0 then CHR ''-'' # show_nat (nat (- i)) else show_nat (nat i))"

text \<open>
  Object spread \<^verbatim>\<open>{...v}\<close>: the own enumerable properties of \<^verbatim>\<open>v\<close>. An object gives its
  properties, an array and a string their elements under the index as key, any other
  value nothing.
\<close>

fun spread :: "js_value \<Rightarrow> (string \<times> js_value) list" where
  "spread (JObj kvs) = kvs"
| "spread (JArr xs) = zip (map show_nat [0..<length xs]) xs"
| "spread (JStr s) = zip (map show_nat [0..<length s]) (map (\<lambda>c. JStr [c]) s)"
| "spread v = []"

section \<open>The platform and its events\<close>

record js_file =
  file_name :: string
  file_content :: string

record upload_opts =
  cacheControl :: string
  upsert :: bool

text \<open>The \<^verbatim>\<open>error\<close> member of a platform response: an object with a message.\<close>

datatype platform_error = PlatformError (error_message: string)

text \<open>A platform response \<^verbatim>\<open>{ data, error }\<close>; \<^verbatim>\<open>error\<close> is \<^verbatim>\<open>null\<close> on success.\<close>

record response =
  resp_data :: js_value
  resp_error :: "platform_error option"

text \<open>An awaited platform call either rejects with a thrown value or resolves.\<close>

datatype 'a outcome = Rejects thrown | Resolves 'a

text \<open>
  The external platform, as the code consumes it: the SDK's storage and table calls,
  \<^verbatim>\<open>JSON.parse\<close>, the \<^verbatim>\<open>URL\<close> constructor and \<^verbatim>\<open>createClient\<close>. None of it is code of
  the repository, so each is a parameter.
\<close>

record platform =
  JSON_parse :: "string \<Rightarrow> thrown + js_value"
  storage_upload :: "string \<Rightarrow> string \<Rightarrow> js_file \<Rightarrow> upload_opts \<Rightarrow> response outcome"
  storage_getPublicUrl :: "string \<Rightarrow> string \<Rightarrow> string"
  table_insert_select_single :: "string \<Rightarrow> js_value list \<Rightarrow> response outcome"
  new_URL :: "string \<Rightarrow> thrown option"
  createClient :: "string \<Rightarrow> string \<Rightarrow> thrown option"

record toast_args =
  title :: string
  description :: string
  variant :: "string option"

datatype log_arg = LStr string | LThrown thrown | LPlatformError platform_error

record upload_result =
  path :: string
  url :: string

text \<open>
  Everything a run does to the outside is an event. Each operation returns, next to its
  result, the list of the events it caused, in order. The entry and the settlement of
  \<^verbatim>\<open>uploadFile\<close> and \<^verbatim>\<open>createSubmission\<close> are events too.
\<close>

datatype event =
    PreventDefault
  | Toast toast_args
  | Navigate string
  | SetIsSubmitting bool
  | OnSuccessCalled
  | ConsoleLog "log_arg list"
  | ConsoleError "log_arg list"
  | UploadFileCalled js_file string
  | UploadFileSettled "thrown + upload_result"
  | CreateSubmissionCalled js_value
  | CreateSubmissionSettled "thrown + js_value"
  | StorageUpload string string js_file upload_opts
  | StorageGetPublicUrl string string
  | TableInsert string "js_value list"
  | FunctionsSetAuth js_value

text \<open>Local storage: keys to strings. The code only reads it.\<close>

type_synonym storage = "string \<rightharpoonup> string"

section \<open>The client wrapper (src/lib/supabase.ts)\<close>

text \<open>
  \<^verbatim>\<open>getCurrentUser\<close>: the entry of local storage under \<^verbatim>\<open>aceInApril_user\<close>, parsed.
  \<^verbatim>\<open>getItem\<close> gives \<^verbatim>\<open>null\<close> for an absent key; \<^verbatim>\<open>!userString\<close> also holds for the empty
  string. The body of the \<^verbatim>\<open>try\<close> is \<open>getCurrentUser_try\<close>, the \<^verbatim>\<open>catch\<close> logs and
  returns \<^verbatim>\<open>null\<close>.
\<close>

definition getCurrentUser_try :: "platform \<Rightarrow> string \<Rightarrow> thrown + js_value" where
  "getCurrentUser_try P userString = JSON_parse P userString"

definition getCurrentUser :: "platform \<Rightarrow> storage \<Rightarrow> js_value \<times> event list" where
  "getCurrentUser P ls =
     (case ls ''aceInApril_user'' of
        None \<Rightarrow> (JNull, [])
      | Some userString \<Rightarrow>
          if userString = [] then (JNull, [])
          else (case getCurrentUser_try P userString of
                  Inr v \<Rightarrow> (v, [])
                | Inl error \<Rightarrow>
                    (JNull, [ConsoleError [LStr ''Error parsing user data:'', LThrown error]])))"

text \<open>
  \<^verbatim>\<open>uploadFile(file, fileName)\<close>. \<open>uploadFile_body\<close> is the body of the function;
  \<open>uploadFile\<close> adds the entry and settlement events around it.
\<close>

definition uploadFile_body ::
  "platform \<Rightarrow> storage \<Rightarrow> js_file \<Rightarrow> string \<Rightarrow> (thrown + upload_result) \<times> event list" where
  "uploadFile_body P ls file fileName =
     (let (user, es1) = getCurrentUser P ls in
      if \<not> ToBoolean user then (Inl (Error ''No user found''), es1)
      else
        let opts = \<lparr>cacheControl = ''3600'', upsert = False\<rparr>;
            es2 = es1 @ [StorageUpload ''submissions'' fileName file opts]
        in case storage_upload P ''submissions'' fileName file opts of
             Rejects e \<Rightarrow> (Inl e, es2)
           | Resolves r \<Rightarrow>
               (case resp_error r of
                  Some error \<Rightarrow>
                    (Inl (Error (''Failed to upload file: '' @ error_message error)),
                     es2 @ [ConsoleError [LStr ''Upload error details:'', LPlatformError error]])
                | None \<Rightarrow>
                    (Inr \<lparr>path = fileName, url = storage_getPublicUrl P ''submissions'' fileName\<rparr>,
                     es2 @ [StorageGetPublicUrl ''submissions'' fileName])))"

definition uploadFile ::
  "platform \<Rightarrow> storage \<Rightarrow> js_file \<Rightarrow> string \<Rightarrow> (thrown + upload_result) \<times> event list" where
  "uploadFile P ls file fileName =
     (let (r, es) = uploadFile_body P ls file fileName
      in (r, UploadFileCalled file fileName # es @ [UploadFileSettled r]))"

text \<open>
  \<^verbatim>\<open>createSubmission(submission)\<close>: the row is \<^verbatim>\<open>{ ...submission, user_id: user.id }\<close>, a
  property set after the spread: it replaces the value of an existing \<^verbatim>\<open>user_id\<close> key
  in place and is appended otherwise.
\<close>

definition createSubmission_body ::
  "platform \<Rightarrow> storage \<Rightarrow> js_value \<Rightarrow> (thrown + js_value) \<times> event list" where
  "createSubmission_body P ls submission =
     (let (user, es1) = getCurrentUser P ls in
      if \<not> ToBoolean user then (Inl (Error ''No user found''), es1)
      else
        case get_id user of
          Inl e \<Rightarrow> (Inl e, es1)
        | Inr uid \<Rightarrow>
            let row = JObj (AList.update ''user_id'' uid (spread submission));
                es2 = es1 @ [TableInsert ''submissions'' [row]]
            in case table_insert_select_single P ''submissions'' [row] of
                 Rejects e \<Rightarrow> (Inl e, es2)
               | Resolves r \<Rightarrow>
                   (case resp_error r of
                      Some error \<Rightarrow>
                        (Inl (Error (''Submission failed: '' @ error_message error)),
                         es2 @ [ConsoleError [LStr ''Submission error:'', LPlatformError error]])
                    | None \<Rightarrow> (Inr (resp_data r), es2)))"

definition createSubmission ::
  "platform \<Rightarrow> storage \<Rightarrow> js_value \<Rightarrow> (thrown + js_value) \<times> event list" where
  "createSubmission P ls submission =
     (let (r, es) = createSubmission_body P ls submission
      in (r, CreateSubmissionCalled submission # es @ [CreateSubmissionSettled r]))"

section \<open>The form component (SubmissionForm)\<close>

text \<open>
  Modelled from the spec: the user of \<^verbatim>\<open>useAuth()\<close> comes from \<^verbatim>\<open>@/contexts/AuthContext\<close>,
  which is not among the sources. The spec gives the current user as \<^verbatim>\<open>{id, ...}\<close>; the
  form reads only \<^verbatim>\<open>user.id\<close>, taken here as a string. No user is \<^verbatim>\<open>null\<close>.
\<close>

record auth_user =
  user_id :: string

text \<open>The three \<^verbatim>\<open>useState\<close> cells of the component.\<close>

record form_state =
  message :: string
  selectedFile :: "js_file option"
  isSubmitting :: bool

text \<open>The optional \<^verbatim>\<open>onSuccess\<close> callback of the caller returns or throws.\<close>

datatype callback = Returns | Throws thrown

definition setIsSubmitting :: "bool \<Rightarrow> form_state \<Rightarrow> form_state \<times> event list" where
  "setIsSubmitting b st = (st\<lparr>isSubmitting := b\<rparr>, [SetIsSubmitting b])"

text \<open>\<^verbatim>\<open>e instanceof Error ? e.message : fallback\<close>\<close>

definition message_or :: "thrown \<Rightarrow> string \<Rightarrow> string" where
  "message_or e fallback = (case e of Error m \<Rightarrow> m | NonError v \<Rightarrow> fallback)"

text \<open>\<^verbatim>\<open>toISOString().split('T')[0]\<close>: the text before the first \<^verbatim>\<open>T\<close>, all of it when there is none.\<close>

definition split_T_first :: "string \<Rightarrow> string" where
  "split_T_first isoString = takeWhile (\<lambda>c. c \<noteq> CHR ''T'') isoString"

text \<open>The template literal \<^verbatim>\<open>${user.id}_${Date.now()}_${file.name}\<close>.\<close>

definition upload_fileName :: "auth_user \<Rightarrow> int \<Rightarrow> js_file \<Rightarrow> string" where
  "upload_fileName user now f = user_id user @ ''_'' @ show_int now @ ''_'' @ file_name f"

text \<open>
  The end of the \<^verbatim>\<open>try\<close> block of \<^verbatim>\<open>handleSubmit\<close>, from the call of
  \<^verbatim>\<open>createSubmission\<close> on. \<open>Inl\<close> is an exception that leaves the block.
\<close>

definition handleSubmit_create ::
  "platform \<Rightarrow> storage \<Rightarrow> callback option \<Rightarrow> string \<Rightarrow> string \<Rightarrow> js_value
     \<Rightarrow> (thrown + unit) \<times> event list" where
  "handleSubmit_create P ls onSuccess today msg fileUrl =
     (let (r, es1) = createSubmission P ls
                       (JObj [(''date'', JStr today), (''message'', JStr msg), (''file_url'', fileUrl)])
      in case r of
           Inl e \<Rightarrow> (Inl e, es1)
         | Inr stored \<Rightarrow>
             let es2 = es1 @ [Toast \<lparr>title = ''Submission successful'',
                                     description = ''Your solution has been submitted successfully.'',
                                     variant = None\<rparr>]
             in case onSuccess of
                  None \<Rightarrow> (Inr (), es2 @ [Navigate ''/''])
                | Some Returns \<Rightarrow> (Inr (), es2 @ [OnSuccessCalled, Navigate ''/''])
                | Some (Throws e) \<Rightarrow> (Inl e, es2 @ [OnSuccessCalled]))"

text \<open>
  The \<^verbatim>\<open>try\<close> block of \<^verbatim>\<open>handleSubmit\<close>. \<open>isoString\<close> is what \<^verbatim>\<open>new Date().toISOString()\<close>
  returns and \<open>now\<close> what \<^verbatim>\<open>Date.now()\<close> returns. \<open>Inr ()\<close> is leaving the block by its
  end or by the \<^verbatim>\<open>return\<close> of the inner \<^verbatim>\<open>catch\<close>; both go on to \<^verbatim>\<open>finally\<close>.
\<close>

definition handleSubmit_try ::
  "platform \<Rightarrow> storage \<Rightarrow> callback option \<Rightarrow> auth_user \<Rightarrow> string \<Rightarrow> int \<Rightarrow> form_state
     \<Rightarrow> (thrown + unit) \<times> form_state \<times> event list" where
  "handleSubmit_try P ls onSuccess user isoString now st =
     (let today = split_T_first isoString in
      case selectedFile st of
        None \<Rightarrow>
          (let (r, es) = handleSubmit_create P ls onSuccess today (message st) JNull
           in (r, st, es))
      | Some f \<Rightarrow>
          let fileName = upload_fileName user now f;
              es1 = [ConsoleLog [LStr ''Attempting to upload file:'', LStr fileName]];
              (r, es2) = uploadFile P ls f fileName
          in case r of
               Inl uploadError \<Rightarrow>
                 (let es3 = [ConsoleError [LStr ''Upload error:'', LThrown uploadError],
                             Toast \<lparr>title = ''File upload failed'',
                                    description = message_or uploadError ''Failed to upload file'',
                                    variant = Some ''destructive''\<rparr>];
                      (st1, es4) = setIsSubmitting False st
                  in (Inr (), st1, es1 @ es2 @ es3 @ es4))
             | Inr res \<Rightarrow>
                 (let es3 = [ConsoleLog [LStr ''File uploaded successfully, URL:'', LStr (url res)]];
                      (r2, es4) = handleSubmit_create P ls onSuccess today (message st) (JStr (url res))
                  in (r2, st, es1 @ es2 @ es3 @ es4)))"

text \<open>
  \<^verbatim>\<open>handleSubmit\<close>, with the \<^verbatim>\<open>catch\<close> and the \<^verbatim>\<open>finally\<close> of the outer \<^verbatim>\<open>try\<close>. It
  returns the state of the component after the run and the events of the run.
\<close>

definition handleSubmit ::
  "platform \<Rightarrow> storage \<Rightarrow> callback option \<Rightarrow> auth_user option \<Rightarrow> string \<Rightarrow> int \<Rightarrow> form_state
     \<Rightarrow> form_state \<times> event list" where
  "handleSubmit P ls onSuccess user isoString now st =
     (case user of
        None \<Rightarrow>
          (st, [PreventDefault,
                Toast \<lparr>title = ''Not logged in'',
                       description = ''You must be logged in to submit.'',
                       variant = Some ''destructive''\<rparr>,
                Navigate ''/login''])
      | Some u \<Rightarrow>
          let (st1, es1) = setIsSubmitting True st;
              (r, st2, es2) = handleSubmit_try P ls onSuccess u isoString now st1;
              es3 = (case r of
                       Inl error \<Rightarrow>
                         [ConsoleError [LStr ''Submission error:'', LThrown error],
                          Toast \<lparr>title = ''Submission failed'',
                                 description = message_or error ''An unexpected error occurred'',
                                 variant = Some ''destructive''\<rparr>]
                     | Inr u \<Rightarrow> []);
              (st3, es4) = setIsSubmitting False st2
          in (st3, PreventDefault # es1 @ es2 @ es3 @ es4))"

section \<open>The variant client setup\<close>

text \<open>
  The variant of the wrapper module that validates the URL. \<^verbatim>\<open>import.meta.env\<close> gives a
  string or \<^verbatim>\<open>undefined\<close>; \<^verbatim>\<open>||\<close> takes the placeholder for \<^verbatim>\<open>undefined\<close> and for the empty
  string.
\<close>

definition or_default :: "string option \<Rightarrow> string \<Rightarrow> string" where
  "or_default v d = (case v of None \<Rightarrow> d | Some s \<Rightarrow> if s = [] then d else s)"

definition supabaseUrl :: "string option \<Rightarrow> string" where
  "supabaseUrl env_url = or_default env_url ''https://your-project-url.supabase.co''"

definition supabaseAnonKey :: "string option \<Rightarrow> string" where
  "supabaseAnonKey env_key = or_default env_key ''your-anon-key''"

datatype client = RealClient string string | StubClient

text \<open>The operations of the object the \<^verbatim>\<open>catch\<close> branch returns.\<close>

datatype table_method = Select | Insert | Update | Delete | Eq

datatype storage_method = Upload | GetPublicUrl

datatype stub_operation = FromOp table_method | StorageFromOp storage_method | FunctionsSetAuthOp

definition configuration_error :: js_value where
  "configuration_error =
     JObj [(''data'', JNull), (''error'', JObj [(''message'', JStr ''Supabase configuration error'')])]"

text \<open>
  What each operation of the stub returns: \<^verbatim>\<open>from().m()\<close>, \<^verbatim>\<open>storage.from().m()\<close> and
  \<^verbatim>\<open>functions.setAuth()\<close>. They are object literals and an empty function: none causes
  an event.
\<close>

fun stub_call :: "stub_operation \<Rightarrow> js_value \<times> event list" where
  "stub_call (FromOp Select) =
     (JObj [(''data'', JNull), (''error'', JObj [(''message'', JStr ''Supabase configuration error'')])], [])"
| "stub_call (FromOp Insert) =
     (JObj [(''data'', JNull), (''error'', JObj [(''message'', JStr ''Supabase configuration error'')])], [])"
| "stub_call (FromOp Update) =
     (JObj [(''data'', JNull), (''error'', JObj [(''message'', JStr ''Supabase configuration error'')])], [])"
| "stub_call (FromOp Delete) =
     (JObj [(''data'', JNull), (''error'', JObj [(''message'', JStr ''Supabase configuration error'')])], [])"
| "stub_call (FromOp Eq) =
     (JObj [(''data'', JNull), (''error'', JObj [(''message'', JStr ''Supabase configuration error'')])], [])"
| "stub_call (StorageFromOp Upload) =
     (JObj [(''data'', JNull), (''error'', JObj [(''message'', JStr ''Supabase configuration error'')])], [])"
| "stub_call (StorageFromOp GetPublicUrl) = (JObj [(''data'', JObj [(''publicUrl'', JStr [])])], [])"
| "stub_call FunctionsSetAuthOp = (JUndefined, [])"

text \<open>
  \<^verbatim>\<open>createSupabaseClient\<close>: the \<^verbatim>\<open>try\<close> block validates the URL and creates the client,
  either of which may throw; the \<^verbatim>\<open>catch\<close> logs and returns the stub.
\<close>

definition createSupabaseClient_try :: "platform \<Rightarrow> string \<Rightarrow> string \<Rightarrow> thrown + client" where
  "createSupabaseClient_try P u k =
     (case new_URL P u of
        Some e \<Rightarrow> Inl e
      | None \<Rightarrow> (case createClient P u k of Some e \<Rightarrow> Inl e | None \<Rightarrow> Inr (RealClient u k)))"

definition createSupabaseClient ::
  "platform \<Rightarrow> string option \<Rightarrow> string option \<Rightarrow> client \<times> event list" where
  "createSupabaseClient P env_url env_key =
     (case createSupabaseClient_try P (supabaseUrl env_url) (supabaseAnonKey env_key) of
        Inr c \<Rightarrow> (c, [])
      | Inl error \<Rightarrow> (StubClient, [ConsoleError [LStr ''Invalid Supabase URL:'', LThrown error]]))"

text \<open>
  \<^verbatim>\<open>addUserToRequest\<close> of the variant module: \<^verbatim>\<open>if (user && user.id)\<close>, then
  \<^verbatim>\<open>supabase.functions.setAuth(user.id)\<close>, on the stub or on the SDK's client.
\<close>

definition addUserToRequest ::
  "platform \<Rightarrow> storage \<Rightarrow> client \<Rightarrow> (thrown + unit) \<times> event list" where
  "addUserToRequest P ls c =
     (let (user, es1) = getCurrentUser P ls in
      if \<not> ToBoolean user then (Inr (), es1)
      else case get_id user of
             Inl e \<Rightarrow> (Inl e, es1)
           | Inr uid \<Rightarrow>
               if \<not> ToBoolean uid then (Inr (), es1)
               else (case c of
                       StubClient \<Rightarrow> (Inr (), es1 @ snd (stub_call FunctionsSetAuthOp))
                     | RealClient u k \<Rightarrow> (Inr (), es1 @ [FunctionsSetAuth uid])))"

text \<open>Loading the variant module: create the client, then \<^verbatim>\<open>addUserToRequest()\<close>.\<close>

definition load_module ::
  "platform \<Rightarrow> storage \<Rightarrow> string option \<Rightarrow> string option \<Rightarrow> (thrown + client) \<times> event list" where
  "load_module P ls env_url env_key =
     (let (c, es1) = createSupabaseClient P env_url env_key;
          (r, es2) = addUserToRequest P ls c
      in case r of Inl e \<Rightarrow> (Inl e, es1 @ es2) | Inr u \<Rightarrow> (Inr c, es1 @ es2))"

section \<open>Projections of the event list\<close>

text \<open>The calls of the two wrapper functions and how they settled.\<close>

fun is_api :: "event \<Rightarrow> bool" where
  "is_api (UploadFileCalled f n) = True"
| "is_api (UploadFileSettled r) = True"
| "is_api (CreateSubmissionCalled s) = True"
| "is_api (CreateSubmissionSettled r) = True"
| "is_api e = False"

text \<open>The rows written to the table.\<close>

fun is_TableInsert :: "event \<Rightarrow> bool" where
  "is_TableInsert (TableInsert t rows) = True"
| "is_TableInsert e = False"

text \<open>The files stored.\<close>

fun is_StorageUpload :: "event \<Rightarrow> bool" where
  "is_StorageUpload (StorageUpload b n f opts) = True"
| "is_StorageUpload e = False"

section \<open>A concrete platform and concrete inputs\<close>

text \<open>
  A platform to run the model on: a parser that knows one user, storage and table calls
  with a given outcome, public URLs under one host, and a URL check by prefix.
\<close>

definition example_parse :: "string \<Rightarrow> thrown + js_value" where
  \<open>example_parse s =
     (if s = ''{"id":"u1"}'' then Inr (JObj [(''id'', JStr ''u1'')])
      else Inl (Error ''Unexpected token''))\<close>

definition example_platform :: "response outcome \<Rightarrow> response outcome \<Rightarrow> platform" where
  "example_platform up ins =
     \<lparr>JSON_parse = example_parse,
      storage_upload = (\<lambda>b n f opts. up),
      storage_getPublicUrl = (\<lambda>b n. ''https://cdn.example/'' @ b @ ''/'' @ n),
      table_insert_select_single = (\<lambda>t rows. ins),
      new_URL = (\<lambda>s. if prefix ''https://'' s then None else Some (Error ''Invalid URL'')),
      createClient = (\<lambda>u k. None)\<rparr>"

definition example_storage :: storage where
  \<open>example_storage = [''aceInApril_user'' \<mapsto> ''{"id":"u1"}'']\<close>

definition resolves_ok :: "js_value \<Rightarrow> response outcome" where
  "resolves_ok d = Resolves \<lparr>resp_data = d, resp_error = None\<rparr>"

definition resolves_error :: "string \<Rightarrow> response outcome" where
  "resolves_error m = Resolves \<lparr>resp_data = JNull, resp_error = Some (PlatformError m)\<rparr>"

definition example_user :: auth_user where
  "example_user = \<lparr>user_id = ''u1''\<rparr>"

definition example_file :: js_file where
  "example_file = \<lparr>file_name = ''sol.txt'', file_content = ''print(42)''\<rparr>"

definition example_state :: "js_file option \<Rightarrow> form_state" where
  "example_state f = \<lparr>message = ''hello'', selectedFile = f, isSubmitting = False\<rparr>"

lemmas example_defs = example_parse_def example_platform_def example_storage_def
  resolves_ok_def resolves_error_def example_user_def example_file_def example_state_def

lemmas wrapper_defs = uploadFile_def uploadFile_body_def createSubmission_def
  createSubmission_body_def getCurrentUser_def getCurrentUser_try_def

lemmas form_defs = handleSubmit_def handleSubmit_try_def handleSubmit_create_def
  setIsSubmitting_def split_T_first_def upload_fileName_def message_or_def
  show_int_def show_nat.simps digit_char_def Let_def

section \<open>The cached user\<close>

lemma getCurrentUser_absent: "ls ''aceInApril_user'' = None \<Longrightarrow> getCurrentUser P ls = (JNull, [])"
  by (simp add: getCurrentUser_def)

lemma getCurrentUser_truthy: "ToBoolean (fst (getCurrentUser P ls)) \<Longrightarrow> snd (getCurrentUser P ls) = []"
  by (auto simp: getCurrentUser_def split: option.splits sum.splits if_splits)

lemma getCurrentUser_filter:
  "(\<And>a. \<not> p (ConsoleError a)) \<Longrightarrow> filter p (snd (getCurrentUser P ls)) = []"
  by (simp add: getCurrentUser_def split: option.splits sum.splits)

lemma get_id_truthy: "ToBoolean v \<Longrightarrow> \<exists>u. get_id v = Inr u"
  by (cases v) auto

text \<open>
  C9. \<^verbatim>\<open>getCurrentUser\<close> always returns a value: \<^verbatim>\<open>null\<close> when the key
  \<^verbatim>\<open>aceInApril_user\<close> is absent, \<^verbatim>\<open>null\<close> when the stored string does not parse, and the
  parsed value when it parses. The empty string is not JSON (\<^verbatim>\<open>JSON.parse('')\<close> throws),
  which is the assumption on the parser.
\<close>

theorem getCurrentUser_total:
  assumes "isl (JSON_parse P [])"
  shows "(ls ''aceInApril_user'' = None \<longrightarrow> fst (getCurrentUser P ls) = JNull)
       \<and> (\<forall>s e. ls ''aceInApril_user'' = Some s \<and> JSON_parse P s = Inl e
                \<longrightarrow> fst (getCurrentUser P ls) = JNull)
       \<and> (\<forall>s v. ls ''aceInApril_user'' = Some s \<and> JSON_parse P s = Inr v
                \<longrightarrow> fst (getCurrentUser P ls) = v)"
  using assms by (auto simp: getCurrentUser_def getCurrentUser_try_def)

theorem getCurrentUser_total_witness:
  \<open>isl (JSON_parse (example_platform (resolves_ok JNull) (resolves_ok JNull)) [])
   \<and> fst (getCurrentUser (example_platform (resolves_ok JNull) (resolves_ok JNull)) Map.empty) = JNull
   \<and> fst (getCurrentUser (example_platform (resolves_ok JNull) (resolves_ok JNull))
           [''aceInApril_user'' \<mapsto> ''{"id":'']) = JNull
   \<and> fst (getCurrentUser (example_platform (resolves_ok JNull) (resolves_ok JNull)) example_storage)
       = JObj [(''id'', JStr ''u1'')]\<close>
proof -
  let ?P = "example_platform (resolves_ok JNull) (resolves_ok JNull)"
  have h: "isl (JSON_parse ?P [])"
    by (simp add: example_defs)
  show ?thesis
    using h getCurrentUser_total [OF h, where ls = Map.empty]
      getCurrentUser_total [OF h, where ls = \<open>[''aceInApril_user'' \<mapsto> ''{"id":'']\<close>]
      getCurrentUser_total [OF h, where ls = example_storage]
    by (simp add: example_defs)
qed

section \<open>Uploading and inserting\<close>

lemma uploadFile_api:
  "filter is_api (snd (uploadFile P ls f n)) = [UploadFileCalled f n, UploadFileSettled (fst (uploadFile P ls f n))]"
  by (simp add: uploadFile_def uploadFile_body_def getCurrentUser_def Let_def split: option.splits sum.splits outcome.splits)

lemma createSubmission_api:
  "filter is_api (snd (createSubmission P ls s)) = [CreateSubmissionCalled s, CreateSubmissionSettled (fst (createSubmission P ls s))]"
  by (simp add: createSubmission_def createSubmission_body_def getCurrentUser_def Let_def split: option.splits sum.splits outcome.splits)

lemma uploadFile_inserts: "filter is_TableInsert (snd (uploadFile P ls f n)) = []"
  by (simp add: uploadFile_def uploadFile_body_def getCurrentUser_def Let_def split: option.splits sum.splits outcome.splits)

lemma createSubmission_uploads: "filter is_StorageUpload (snd (createSubmission P ls s)) = []"
  by (simp add: createSubmission_def createSubmission_body_def getCurrentUser_def Let_def split: option.splits sum.splits outcome.splits)

lemma uploadFile_no_user:
  "\<not> ToBoolean (fst (getCurrentUser P ls)) \<Longrightarrow> fst (uploadFile P ls f n) = Inl (Error ''No user found'')"
  by (simp add: uploadFile_def uploadFile_body_def case_prod_beta)

lemma createSubmission_no_user:
  "\<not> ToBoolean (fst (getCurrentUser P ls)) \<Longrightarrow> fst (createSubmission P ls s) = Inl (Error ''No user found'')"
  by (simp add: createSubmission_def createSubmission_body_def case_prod_beta)

lemma createSubmission_no_user_inserts:
  "\<not> ToBoolean (fst (getCurrentUser P ls)) \<Longrightarrow> filter is_TableInsert (snd (createSubmission P ls s)) = []"
  by (simp add: createSubmission_def createSubmission_body_def case_prod_beta getCurrentUser_filter)

lemma uploadFile_success:
  assumes "ToBoolean (fst (getCurrentUser P ls))"
    and "storage_upload P ''submissions'' n f \<lparr>cacheControl = ''3600'', upsert = False\<rparr> = Resolves r"
    and "resp_error r = None"
  shows "uploadFile P ls f n =
           (Inr \<lparr>path = n, url = storage_getPublicUrl P ''submissions'' n\<rparr>,
            [UploadFileCalled f n,
             StorageUpload ''submissions'' n f \<lparr>cacheControl = ''3600'', upsert = False\<rparr>,
             StorageGetPublicUrl ''submissions'' n,
             UploadFileSettled (Inr \<lparr>path = n, url = storage_getPublicUrl P ''submissions'' n\<rparr>)])"
  using assms getCurrentUser_truthy [OF assms(1)]
  by (simp add: uploadFile_def uploadFile_body_def case_prod_beta)

lemma createSubmission_success:
  assumes "ToBoolean (fst (getCurrentUser P ls))"
    and "get_id (fst (getCurrentUser P ls)) = Inr uid"
    and "table_insert_select_single P ''submissions'' [JObj (AList.update ''user_id'' uid (spread s))] = Resolves r"
    and "resp_error r = None"
  shows "createSubmission P ls s =
           (Inr (resp_data r),
            [CreateSubmissionCalled s,
             TableInsert ''submissions'' [JObj (AList.update ''user_id'' uid (spread s))],
             CreateSubmissionSettled (Inr (resp_data r))])"
  using assms getCurrentUser_truthy [OF assms(1)]
  by (simp add: createSubmission_def createSubmission_body_def case_prod_beta)

text \<open>
  C6. \<^verbatim>\<open>uploadFile\<close> and \<^verbatim>\<open>createSubmission\<close> fail with an \<^verbatim>\<open>Error\<close> that describes the
  failure: \<^verbatim>\<open>No user found\<close> when \<^verbatim>\<open>getCurrentUser\<close> gives nothing truthy (in particular
  when the key is absent), and a message that ends with the platform error's message when
  the storage call, respectively the table call, returns an error.
\<close>

theorem wrapper_fails_with_Error:
  "(ls ''aceInApril_user'' = None \<longrightarrow> \<not> ToBoolean (fst (getCurrentUser P ls)))
   \<and> (\<not> ToBoolean (fst (getCurrentUser P ls)) \<longrightarrow>
        fst (uploadFile P ls f n) = Inl (Error ''No user found'')
        \<and> fst (createSubmission P ls s) = Inl (Error ''No user found''))
   \<and> (\<forall>r err. ToBoolean (fst (getCurrentUser P ls))
          \<and> storage_upload P ''submissions'' n f \<lparr>cacheControl = ''3600'', upsert = False\<rparr> = Resolves r
          \<and> resp_error r = Some err
        \<longrightarrow> fst (uploadFile P ls f n) = Inl (Error (''Failed to upload file: '' @ error_message err)))
   \<and> (\<forall>uid r err. ToBoolean (fst (getCurrentUser P ls))
          \<and> get_id (fst (getCurrentUser P ls)) = Inr uid
          \<and> table_insert_select_single P ''submissions''
               [JObj (AList.update ''user_id'' uid (spread s))] = Resolves r
          \<and> resp_error r = Some err
        \<longrightarrow> fst (createSubmission P ls s) = Inl (Error (''Submission failed: '' @ error_message err)))"
  by (simp add: getCurrentUser_absent uploadFile_no_user createSubmission_no_user)
     (simp add: uploadFile_def uploadFile_body_def createSubmission_def createSubmission_body_def
        case_prod_beta)

theorem wrapper_fails_with_Error_witness:
  "\<not> ToBoolean (fst (getCurrentUser (example_platform (resolves_ok JNull) (resolves_ok JNull)) Map.empty))
   \<and> fst (uploadFile (example_platform (resolves_ok JNull) (resolves_ok JNull)) Map.empty example_file ''a.txt'')
       = Inl (Error ''No user found'')
   \<and> fst (createSubmission (example_platform (resolves_ok JNull) (resolves_ok JNull)) Map.empty (JObj []))
       = Inl (Error ''No user found'')
   \<and> fst (uploadFile (example_platform (resolves_error ''The resource already exists'') (resolves_ok JNull))
            example_storage example_file ''a.txt'')
       = Inl (Error ''Failed to upload file: The resource already exists'')
   \<and> fst (createSubmission (example_platform (resolves_ok JNull) (resolves_error ''permission denied''))
            example_storage (JObj []))
       = Inl (Error ''Submission failed: permission denied'')"
proof -
  let ?P = "example_platform (resolves_ok JNull) (resolves_ok JNull)"
  let ?Pu = "example_platform (resolves_error ''The resource already exists'') (resolves_ok JNull)"
  let ?Pi = "example_platform (resolves_ok JNull) (resolves_error ''permission denied'')"
  have a: "\<not> ToBoolean (fst (getCurrentUser ?P Map.empty))"
    by (simp add: getCurrentUser_def)
  have b: "ToBoolean (fst (getCurrentUser ?Pu example_storage))"
      "ToBoolean (fst (getCurrentUser ?Pi example_storage))"
      "get_id (fst (getCurrentUser ?Pi example_storage)) = Inr (JStr ''u1'')"
    by (simp_all add: getCurrentUser_def getCurrentUser_try_def example_defs)
  have c: "storage_upload ?Pu ''submissions'' ''a.txt'' example_file \<lparr>cacheControl = ''3600'', upsert = False\<rparr>
             = Resolves \<lparr>resp_data = JNull, resp_error = Some (PlatformError ''The resource already exists'')\<rparr>"
      "table_insert_select_single ?Pi ''submissions'' [JObj (AList.update ''user_id'' (JStr ''u1'') (spread (JObj [])))]
             = Resolves \<lparr>resp_data = JNull, resp_error = Some (PlatformError ''permission denied'')\<rparr>"
    by (simp_all add: example_defs)
  show ?thesis
    using a b c
      wrapper_fails_with_Error [where ls = Map.empty and P = ?P and f = example_file
        and n = "''a.txt''" and s = "JObj []"]
      wrapper_fails_with_Error [where ls = example_storage and P = ?Pu and f = example_file
        and n = "''a.txt''" and s = "JObj []"]
      wrapper_fails_with_Error [where ls = example_storage and P = ?Pi and f = example_file
        and n = "''a.txt''" and s = "JObj []"]
    by simp
qed

text \<open>
  C7. With a cached current user, \<^verbatim>\<open>uploadFile(file, fileName)\<close> makes exactly one storage
  upload: of that file, under \<^verbatim>\<open>fileName\<close>, in the bucket \<^verbatim>\<open>submissions\<close>, with
  \<^verbatim>\<open>upsert: false\<close>. When the upload resolves without error the call returns \<^verbatim>\<open>fileName\<close> as
  the path and the bucket's public URL for \<^verbatim>\<open>fileName\<close>; it returns nothing else.
\<close>

theorem uploadFile_stores_under_fileName:
  assumes "ToBoolean (fst (getCurrentUser P ls))"
  shows "filter is_StorageUpload (snd (uploadFile P ls f n)) =
           [StorageUpload ''submissions'' n f \<lparr>cacheControl = ''3600'', upsert = False\<rparr>]
       \<and> (\<forall>r. storage_upload P ''submissions'' n f \<lparr>cacheControl = ''3600'', upsert = False\<rparr> = Resolves r
               \<and> resp_error r = None
             \<longrightarrow> fst (uploadFile P ls f n) = Inr \<lparr>path = n, url = storage_getPublicUrl P ''submissions'' n\<rparr>)
       \<and> (\<forall>res. fst (uploadFile P ls f n) = Inr res
             \<longrightarrow> path res = n \<and> url res = storage_getPublicUrl P ''submissions'' n)"
  using assms getCurrentUser_truthy [OF assms]
  by (auto simp: uploadFile_def uploadFile_body_def case_prod_beta Let_def
        split: outcome.splits option.splits)

theorem uploadFile_stores_under_fileName_witness:
  "ToBoolean (fst (getCurrentUser (example_platform (resolves_ok JNull) (resolves_ok JNull)) example_storage))
   \<and> filter is_StorageUpload
        (snd (uploadFile (example_platform (resolves_ok JNull) (resolves_ok JNull)) example_storage
               example_file ''a.txt''))
       = [StorageUpload ''submissions'' ''a.txt'' example_file \<lparr>cacheControl = ''3600'', upsert = False\<rparr>]
   \<and> fst (uploadFile (example_platform (resolves_ok JNull) (resolves_ok JNull)) example_storage
            example_file ''a.txt'')
       = Inr \<lparr>path = ''a.txt'', url = ''https://cdn.example/submissions/a.txt''\<rparr>"
proof -
  let ?P = "example_platform (resolves_ok JNull) (resolves_ok JNull)"
  have h: "ToBoolean (fst (getCurrentUser ?P example_storage))"
    by (simp add: getCurrentUser_def getCurrentUser_try_def example_defs)
  have up: "storage_upload ?P ''submissions'' ''a.txt'' example_file \<lparr>cacheControl = ''3600'', upsert = False\<rparr>
              = Resolves \<lparr>resp_data = JNull, resp_error = None\<rparr>"
      "storage_getPublicUrl ?P ''submissions'' ''a.txt'' = ''https://cdn.example/submissions/a.txt''"
    by (simp_all add: example_defs)
  show ?thesis
    using h up uploadFile_stores_under_fileName [OF h, where f = example_file and n = "''a.txt''"]
    by simp
qed

text \<open>
  C10. With a cached current user, \<^verbatim>\<open>createSubmission\<close> sends exactly one row to the table
  \<^verbatim>\<open>submissions\<close>. Its \<^verbatim>\<open>user_id\<close> is the \<^verbatim>\<open>id\<close> of the cached user, whatever \<^verbatim>\<open>user_id\<close>
  the argument carried; every other property is that of the argument.
\<close>

theorem createSubmission_tags_row:
  assumes "ToBoolean (fst (getCurrentUser P ls))"
  shows "\<exists>uid row. get_id (fst (getCurrentUser P ls)) = Inr uid
           \<and> filter is_TableInsert (snd (createSubmission P ls s)) = [TableInsert ''submissions'' [JObj row]]
           \<and> map_of row ''user_id'' = Some uid
           \<and> (\<forall>k. k \<noteq> ''user_id'' \<longrightarrow> map_of row k = map_of (spread s) k)"
proof -
  from get_id_truthy [OF assms] obtain uid where uid: "get_id (fst (getCurrentUser P ls)) = Inr uid" ..
  let ?row = "AList.update ''user_id'' uid (spread s)"
  have "filter is_TableInsert (snd (createSubmission P ls s)) = [TableInsert ''submissions'' [JObj ?row]]"
    using assms uid getCurrentUser_truthy [OF assms]
    by (simp add: createSubmission_def createSubmission_body_def case_prod_beta Let_def
          split: outcome.splits option.splits)
  moreover have "map_of ?row ''user_id'' = Some uid"
    by (simp add: update_conv')
  moreover have "\<forall>k. k \<noteq> ''user_id'' \<longrightarrow> map_of ?row k = map_of (spread s) k"
    by (simp add: update_conv')
  ultimately show ?thesis using uid by blast
qed

theorem createSubmission_tags_row_witness:
  "ToBoolean (fst (getCurrentUser (example_platform (resolves_ok JNull) (resolves_ok JNull)) example_storage))
   \<and> filter is_TableInsert
        (snd (createSubmission (example_platform (resolves_ok JNull) (resolves_ok JNull)) example_storage
               (JObj [(''user_id'', JStr ''u2''), (''message'', JStr ''hello'')])))
       = [TableInsert ''submissions'' [JObj [(''user_id'', JStr ''u1''), (''message'', JStr ''hello'')]]]"
proof -
  let ?P = "example_platform (resolves_ok JNull) (resolves_ok JNull)"
  let ?s = "JObj [(''user_id'', JStr ''u2''), (''message'', JStr ''hello'')]"
  have h: "ToBoolean (fst (getCurrentUser ?P example_storage))"
    by (simp add: getCurrentUser_def getCurrentUser_try_def example_defs)
  show ?thesis
    using h createSubmission_tags_row [OF h, where s = ?s]
    by (simp add: wrapper_defs example_defs)
qed

section \<open>Submitting the form\<close>

lemma handleSubmit_create_api:
  "filter is_api (snd (handleSubmit_create P ls cb today m fu)) =
     [CreateSubmissionCalled (JObj [(''date'', JStr today), (''message'', JStr m), (''file_url'', fu)]),
      CreateSubmissionSettled (fst (createSubmission P ls (JObj [(''date'', JStr today), (''message'', JStr m), (''file_url'', fu)])))]"
  by (simp add: handleSubmit_create_def Let_def case_prod_beta createSubmission_api
        split: sum.splits option.splits callback.splits)

lemma handleSubmit_create_inserts:
  "filter is_TableInsert (snd (handleSubmit_create P ls cb today m fu)) =
     filter is_TableInsert (snd (createSubmission P ls (JObj [(''date'', JStr today), (''message'', JStr m), (''file_url'', fu)])))"
  by (simp add: handleSubmit_create_def Let_def case_prod_beta
        split: sum.splits option.splits callback.splits)

lemma handleSubmit_create_uploads:
  "filter is_StorageUpload (snd (handleSubmit_create P ls cb today m fu)) = []"
  by (simp add: handleSubmit_create_def Let_def case_prod_beta createSubmission_uploads
        split: sum.splits option.splits callback.splits)

lemma handleSubmit_isSubmitting: "isSubmitting (fst (handleSubmit P ls cb (Some u) isoS now st)) = False"
  by (simp add: handleSubmit_def setIsSubmitting_def Let_def case_prod_beta)

lemma handleSubmit_no_user:
  "handleSubmit P ls cb None isoS now st =
     (st, [PreventDefault,
           Toast \<lparr>title = ''Not logged in'', description = ''You must be logged in to submit.'',
                  variant = Some ''destructive''\<rparr>,
           Navigate ''/login''])"
  by (simp add: handleSubmit_def)

lemma handleSubmit_try_api_no_file:
  "selectedFile st = None \<Longrightarrow>
   filter is_api (snd (snd (handleSubmit_try P ls cb u isoS now st))) =
     [CreateSubmissionCalled (JObj [(''date'', JStr (split_T_first isoS)), (''message'', JStr (message st)), (''file_url'', JNull)]),
      CreateSubmissionSettled (fst (createSubmission P ls (JObj [(''date'', JStr (split_T_first isoS)), (''message'', JStr (message st)), (''file_url'', JNull)])))]"
  by (simp add: handleSubmit_try_def Let_def case_prod_beta handleSubmit_create_api)

lemma handleSubmit_try_uploads_no_file:
  "selectedFile st = None \<Longrightarrow>
   filter is_StorageUpload (snd (snd (handleSubmit_try P ls cb u isoS now st))) = []"
  by (simp add: handleSubmit_try_def Let_def case_prod_beta handleSubmit_create_uploads)

lemma handleSubmit_try_api_file:
  "selectedFile st = Some f \<Longrightarrow>
   filter is_api (snd (snd (handleSubmit_try P ls cb u isoS now st))) =
     UploadFileCalled f (upload_fileName u now f)
     # UploadFileSettled (fst (uploadFile P ls f (upload_fileName u now f)))
     # (case fst (uploadFile P ls f (upload_fileName u now f)) of
          Inl e \<Rightarrow> []
        | Inr res \<Rightarrow>
            [CreateSubmissionCalled (JObj [(''date'', JStr (split_T_first isoS)), (''message'', JStr (message st)), (''file_url'', JStr (url res))]),
             CreateSubmissionSettled (fst (createSubmission P ls (JObj [(''date'', JStr (split_T_first isoS)), (''message'', JStr (message st)), (''file_url'', JStr (url res))])))])"
  by (simp add: handleSubmit_try_def Let_def case_prod_beta handleSubmit_create_api uploadFile_api
        setIsSubmitting_def split: sum.splits)

lemma handleSubmit_try_inserts_upload_rejected:
  "selectedFile st = Some f \<Longrightarrow> fst (uploadFile P ls f (upload_fileName u now f)) = Inl e \<Longrightarrow>
   filter is_TableInsert (snd (snd (handleSubmit_try P ls cb u isoS now st))) = []"
  by (simp add: handleSubmit_try_def Let_def case_prod_beta uploadFile_inserts setIsSubmitting_def)

lemma handleSubmit_filter:
  assumes "\<not> p PreventDefault" "\<And>b. \<not> p (SetIsSubmitting b)" "\<And>a. \<not> p (ConsoleError a)" "\<And>a. \<not> p (Toast a)"
  shows "filter p (snd (handleSubmit P ls cb (Some u) isoS now st)) =
         filter p (snd (snd (handleSubmit_try P ls cb u isoS now (st\<lparr>isSubmitting := True\<rparr>))))"
  using assms
  by (simp add: handleSubmit_def setIsSubmitting_def Let_def case_prod_beta split: sum.splits)

lemma handleSubmit_inserts_no_cached_user:
  assumes "\<not> ToBoolean (fst (getCurrentUser P ls))"
  shows "filter is_TableInsert (snd (handleSubmit P ls cb user isoS now st)) = []"
proof (cases user)
  case None
  then show ?thesis by (simp add: handleSubmit_no_user)
next
  case (Some u)
  have "filter is_TableInsert (snd (snd (handleSubmit_try P ls cb u isoS now (st\<lparr>isSubmitting := True\<rparr>)))) = []"
  proof (cases "selectedFile st")
    case None
    then show ?thesis
      by (simp add: handleSubmit_try_def Let_def case_prod_beta handleSubmit_create_inserts
            createSubmission_no_user_inserts [OF assms])
  next
    case (Some f)
    then show ?thesis
      using handleSubmit_try_inserts_upload_rejected [of "st\<lparr>isSubmitting := True\<rparr>" f P ls u now _ cb isoS]
        uploadFile_no_user [OF assms]
      by simp
  qed
  with Some show ?thesis by (simp add: handleSubmit_filter)
qed

lemma split_T_first_date: "CHR ''T'' \<notin> set today \<Longrightarrow> split_T_first (today @ CHR ''T'' # time) = today"
  by (auto simp: split_T_first_def takeWhile_tail)

text \<open>
  C3. Without a user, \<^verbatim>\<open>handleSubmit\<close> leaves the state as it is and does three things:
  \<^verbatim>\<open>preventDefault\<close>, the toast, and the navigation to \<^verbatim>\<open>/login\<close>; it calls neither
  \<^verbatim>\<open>uploadFile\<close> nor \<^verbatim>\<open>createSubmission\<close>. Without a cached user \<^verbatim>\<open>createSubmission\<close>
  throws \<^verbatim>\<open>No user found\<close> and writes no row, and no run of \<^verbatim>\<open>handleSubmit\<close> writes one.
\<close>

theorem no_user_no_submission:
  "handleSubmit P ls onSuccess None isoString now st =
     (st, [PreventDefault,
           Toast \<lparr>title = ''Not logged in'', description = ''You must be logged in to submit.'',
                  variant = Some ''destructive''\<rparr>,
           Navigate ''/login''])
   \<and> (\<not> ToBoolean (fst (getCurrentUser P ls)) \<longrightarrow>
        fst (createSubmission P ls s) = Inl (Error ''No user found'')
        \<and> filter is_TableInsert (snd (createSubmission P ls s)) = []
        \<and> filter is_TableInsert (snd (handleSubmit P ls onSuccess user isoString now st)) = [])"
  by (simp add: handleSubmit_no_user createSubmission_no_user createSubmission_no_user_inserts
        handleSubmit_inserts_no_cached_user)

theorem no_user_no_submission_witness:
  "\<not> ToBoolean (fst (getCurrentUser (example_platform (resolves_ok JNull) (resolves_ok JNull)) Map.empty))
   \<and> fst (createSubmission (example_platform (resolves_ok JNull) (resolves_ok JNull)) Map.empty
            (JObj [(''message'', JStr ''hello'')])) = Inl (Error ''No user found'')
   \<and> filter is_TableInsert
        (snd (createSubmission (example_platform (resolves_ok JNull) (resolves_ok JNull)) Map.empty
               (JObj [(''message'', JStr ''hello'')]))) = []
   \<and> filter is_TableInsert
        (snd (handleSubmit (example_platform (resolves_ok JNull) (resolves_ok JNull)) Map.empty None
               (Some example_user) ''2026-11-02T10:15:30.000Z'' 1730500000000 (example_state None))) = []
   \<and> snd (handleSubmit (example_platform (resolves_ok JNull) (resolves_ok JNull)) example_storage None
            None ''2026-11-02T10:15:30.000Z'' 1730500000000 (example_state (Some example_file)))
       = [PreventDefault,
          Toast \<lparr>title = ''Not logged in'', description = ''You must be logged in to submit.'',
                 variant = Some ''destructive''\<rparr>,
          Navigate ''/login'']"
proof -
  let ?P = "example_platform (resolves_ok JNull) (resolves_ok JNull)"
  have h: "\<not> ToBoolean (fst (getCurrentUser ?P Map.empty))"
    by (simp add: getCurrentUser_def)
  show ?thesis
    using h
      no_user_no_submission [where P = ?P and ls = Map.empty and onSuccess = None
        and isoString = "''2026-11-02T10:15:30.000Z''" and now = 1730500000000
        and st = "example_state None" and s = "JObj [(''message'', JStr ''hello'')]"
        and user = "Some example_user"]
      no_user_no_submission [where P = ?P and ls = example_storage and onSuccess = None
        and isoString = "''2026-11-02T10:15:30.000Z''" and now = 1730500000000
        and st = "example_state (Some example_file)" and s = "JObj []" and user = None]
    by simp
qed

text \<open>
  C2. In a run with a file selected, the calls of the wrapper are, in order: none when no
  user is logged in; otherwise \<^verbatim>\<open>uploadFile\<close> and its settlement, followed, only when the
  upload resolved, by \<^verbatim>\<open>createSubmission\<close> with the URL of the upload. When the upload
  rejects, \<^verbatim>\<open>createSubmission\<close> is not called and no row is written.
\<close>

theorem upload_before_insert:
  assumes "selectedFile st = Some f"
  shows "case user of
           None \<Rightarrow> filter is_api (snd (handleSubmit P ls onSuccess None isoString now st)) = []
         | Some u \<Rightarrow>
             (let es = snd (handleSubmit P ls onSuccess (Some u) isoString now st);
                  fileName = upload_fileName u now f
              in case fst (uploadFile P ls f fileName) of
                   Inl e \<Rightarrow>
                     filter is_api es = [UploadFileCalled f fileName, UploadFileSettled (Inl e)]
                     \<and> filter is_TableInsert es = []
                 | Inr res \<Rightarrow>
                     (let submission = JObj [(''date'', JStr (split_T_first isoString)),
                                             (''message'', JStr (message st)),
                                             (''file_url'', JStr (url res))]
                      in filter is_api es =
                           [UploadFileCalled f fileName, UploadFileSettled (Inr res),
                            CreateSubmissionCalled submission,
                            CreateSubmissionSettled (fst (createSubmission P ls submission))]))"
proof (cases user)
  case None
  then show ?thesis by (simp add: handleSubmit_no_user)
next
  case (Some u)
  let ?st = "st\<lparr>isSubmitting := True\<rparr>"
  have sel: "selectedFile ?st = Some f" using assms by simp
  show ?thesis
    using Some handleSubmit_try_api_file [OF sel, of P ls onSuccess u isoString now]
      handleSubmit_try_inserts_upload_rejected [OF sel, of P ls u now _ onSuccess isoString]
    by (simp add: handleSubmit_filter Let_def split: sum.splits)
qed

theorem upload_before_insert_witness:
  "selectedFile (example_state (Some example_file)) = Some example_file
   \<and> filter is_api
        (snd (handleSubmit (example_platform (resolves_error ''The resource already exists'') (resolves_ok JNull))
               example_storage None (Some example_user) ''2026-11-02T10:15:30.000Z'' 1730500000000
               (example_state (Some example_file))))
       = [UploadFileCalled example_file ''u1_1730500000000_sol.txt'',
          UploadFileSettled (Inl (Error ''Failed to upload file: The resource already exists''))]
   \<and> filter is_TableInsert
        (snd (handleSubmit (example_platform (resolves_error ''The resource already exists'') (resolves_ok JNull))
               example_storage None (Some example_user) ''2026-11-02T10:15:30.000Z'' 1730500000000
               (example_state (Some example_file))))
       = []"
proof -
  let ?P = "example_platform (resolves_error ''The resource already exists'') (resolves_ok JNull)"
  have sel: "selectedFile (example_state (Some example_file)) = Some example_file"
    by (simp add: example_state_def)
  have name: "upload_fileName example_user 1730500000000 example_file = ''u1_1730500000000_sol.txt''"
    by (simp add: form_defs example_defs)
  have rej: "fst (uploadFile ?P example_storage example_file ''u1_1730500000000_sol.txt'')
               = Inl (Error ''Failed to upload file: The resource already exists'')"
    by (simp add: wrapper_defs example_defs)
  show ?thesis
    using sel upload_before_insert [OF sel, where user = "Some example_user" and P = ?P
        and ls = example_storage and onSuccess = None and isoString = "''2026-11-02T10:15:30.000Z''"
        and now = 1730500000000]
    by (simp add: name rej Let_def)
qed

text \<open>
  C4. A run of \<^verbatim>\<open>handleSubmit\<close> in which \<^verbatim>\<open>uploadFile\<close> or \<^verbatim>\<open>createSubmission\<close> rejects
  ends with \<^verbatim>\<open>isSubmitting\<close> false.
\<close>

theorem failure_resets_isSubmitting:
  assumes "UploadFileSettled (Inl e) \<in> set (snd (handleSubmit P ls onSuccess user isoString now st))
         \<or> CreateSubmissionSettled (Inl e) \<in> set (snd (handleSubmit P ls onSuccess user isoString now st))"
  shows "\<not> isSubmitting (fst (handleSubmit P ls onSuccess user isoString now st))"
proof (cases user)
  case None
  with assms show ?thesis by (simp add: handleSubmit_no_user)
next
  case (Some u)
  then show ?thesis by (simp add: handleSubmit_isSubmitting)
qed

theorem failure_resets_isSubmitting_witness:
  "UploadFileSettled (Inl (Error ''Failed to upload file: The resource already exists''))
     \<in> set (snd (handleSubmit (example_platform (resolves_error ''The resource already exists'') (resolves_ok JNull))
                    example_storage None (Some example_user) ''2026-11-02T10:15:30.000Z'' 1730500000000
                    (example_state (Some example_file))))
   \<and> \<not> isSubmitting
          (fst (handleSubmit (example_platform (resolves_error ''The resource already exists'') (resolves_ok JNull))
                 example_storage None (Some example_user) ''2026-11-02T10:15:30.000Z'' 1730500000000
                 (example_state (Some example_file))))
   \<and> CreateSubmissionSettled (Inl (Error ''Submission failed: permission denied''))
     \<in> set (snd (handleSubmit (example_platform (resolves_ok JNull) (resolves_error ''permission denied''))
                    example_storage None (Some example_user) ''2026-11-02T10:15:30.000Z'' 1730500000000
                    (example_state None)))
   \<and> \<not> isSubmitting
          (fst (handleSubmit (example_platform (resolves_ok JNull) (resolves_error ''permission denied''))
                 example_storage None (Some example_user) ''2026-11-02T10:15:30.000Z'' 1730500000000
                 (example_state None)))"
proof -
  let ?Pu = "example_platform (resolves_error ''The resource already exists'') (resolves_ok JNull)"
  let ?Pi = "example_platform (resolves_ok JNull) (resolves_error ''permission denied'')"
  let ?up = "handleSubmit ?Pu example_storage None (Some example_user) ''2026-11-02T10:15:30.000Z''
               1730500000000 (example_state (Some example_file))"
  let ?ins = "handleSubmit ?Pi example_storage None (Some example_user) ''2026-11-02T10:15:30.000Z''
               1730500000000 (example_state None)"
  have u: "UploadFileSettled (Inl (Error ''Failed to upload file: The resource already exists''))
             \<in> set (snd ?up)"
    by (simp add: form_defs wrapper_defs example_defs)
  have i: "CreateSubmissionSettled (Inl (Error ''Submission failed: permission denied'')) \<in> set (snd ?ins)"
    by (simp add: form_defs wrapper_defs example_defs)
  show ?thesis
    using u i failure_resets_isSubmitting [OF disjI1 [OF u]] failure_resets_isSubmitting [OF disjI2 [OF i]]
    by simp
qed

text \<open>
  C5. With a user and no file selected, the only call of the wrapper is \<^verbatim>\<open>createSubmission\<close>,
  with \<^verbatim>\<open>file_url: null\<close>; \<^verbatim>\<open>uploadFile\<close> is not called and nothing is stored.
\<close>

theorem no_file_no_upload:
  assumes "selectedFile st = None"
  shows "let es = snd (handleSubmit P ls onSuccess (Some u) isoString now st);
             submission = JObj [(''date'', JStr (split_T_first isoString)),
                                (''message'', JStr (message st)),
                                (''file_url'', JNull)]
         in filter is_api es =
              [CreateSubmissionCalled submission,
               CreateSubmissionSettled (fst (createSubmission P ls submission))]
            \<and> filter is_StorageUpload es = []"
proof -
  let ?st = "st\<lparr>isSubmitting := True\<rparr>"
  have sel: "selectedFile ?st = None" using assms by simp
  show ?thesis
    using handleSubmit_try_api_no_file [OF sel, of P ls onSuccess u isoString now]
      handleSubmit_try_uploads_no_file [OF sel, of P ls onSuccess u isoString now]
    by (simp add: handleSubmit_filter Let_def)
qed

theorem no_file_no_upload_witness:
  "selectedFile (example_state None) = None
   \<and> filter is_api
        (snd (handleSubmit (example_platform (resolves_ok JNull) (resolves_ok (JObj [(''id'', JStr ''row-1'')])))
               example_storage None (Some example_user) ''2026-11-02T10:15:30.000Z'' 1730500000000
               (example_state None)))
       = [CreateSubmissionCalled
            (JObj [(''date'', JStr ''2026-11-02''), (''message'', JStr ''hello''), (''file_url'', JNull)]),
          CreateSubmissionSettled (Inr (JObj [(''id'', JStr ''row-1'')]))]
   \<and> filter is_StorageUpload
        (snd (handleSubmit (example_platform (resolves_ok JNull) (resolves_ok (JObj [(''id'', JStr ''row-1'')])))
               example_storage None (Some example_user) ''2026-11-02T10:15:30.000Z'' 1730500000000
               (example_state None)))
       = []"
proof -
  let ?P = "example_platform (resolves_ok JNull) (resolves_ok (JObj [(''id'', JStr ''row-1'')]))"
  have sel: "selectedFile (example_state None) = None"
    by (simp add: example_state_def)
  have today: "split_T_first ''2026-11-02T10:15:30.000Z'' = ''2026-11-02''"
    by (simp add: split_T_first_def)
  have msg: "message (example_state None) = ''hello''"
    by (simp add: example_state_def)
  have res: "fst (createSubmission ?P example_storage
                    (JObj [(''date'', JStr ''2026-11-02''), (''message'', JStr ''hello''), (''file_url'', JNull)]))
               = Inr (JObj [(''id'', JStr ''row-1'')])"
    by (simp add: wrapper_defs example_defs)
  show ?thesis
    using sel no_file_no_upload [OF sel, where P = ?P and ls = example_storage and onSuccess = None
        and u = example_user and isoString = "''2026-11-02T10:15:30.000Z''" and now = 1730500000000]
    by (simp add: today msg res Let_def)
qed

text \<open>
  C1. The successful run. The user is logged in and is the cached user, a file is
  selected, the upload and the insert resolve without error, and \<^verbatim>\<open>onSuccess\<close>, if given,
  returns. Then the name of the upload starts with the user's id and ends with the file's
  name, and the run is exactly: the upload under that name, \<^verbatim>\<open>createSubmission\<close> with the
  date before the \<^verbatim>\<open>T\<close> of the ISO time stamp, the message and the URL of the upload, the
  row with the user's id, the toast, the callback, the navigation to \<^verbatim>\<open>/\<close>, and the flag
  set back. The run for user \<^verbatim>\<open>u1\<close>, message \<^verbatim>\<open>hello\<close> and file \<^verbatim>\<open>sol.txt\<close> follows it.
\<close>

theorem successful_submit:
  assumes cached: "ToBoolean (fst (getCurrentUser P ls))"
      "get_id (fst (getCurrentUser P ls)) = Inr (JStr (user_id u))"
    and sel: "selectedFile st = Some f"
    and name: "fileName = upload_fileName u now f"
    and up: "storage_upload P ''submissions'' fileName f \<lparr>cacheControl = ''3600'', upsert = False\<rparr> = Resolves ru"
      "resp_error ru = None"
    and link: "fileUrl = storage_getPublicUrl P ''submissions'' fileName"
    and ins: "table_insert_select_single P ''submissions''
                [JObj [(''date'', JStr today), (''message'', JStr (message st)),
                       (''file_url'', JStr fileUrl), (''user_id'', JStr (user_id u))]] = Resolves ri"
      "resp_error ri = None"
    and cb: "onSuccess = None \<or> onSuccess = Some Returns"
    and day: "isoString = today @ ''T'' @ time" "CHR ''T'' \<notin> set today"
  shows "prefix (user_id u) fileName \<and> suffix (file_name f) fileName
       \<and> handleSubmit P ls onSuccess (Some u) isoString now st =
           (st\<lparr>isSubmitting := False\<rparr>,
            [PreventDefault, SetIsSubmitting True,
             ConsoleLog [LStr ''Attempting to upload file:'', LStr fileName],
             UploadFileCalled f fileName,
             StorageUpload ''submissions'' fileName f \<lparr>cacheControl = ''3600'', upsert = False\<rparr>,
             StorageGetPublicUrl ''submissions'' fileName,
             UploadFileSettled (Inr \<lparr>path = fileName, url = fileUrl\<rparr>),
             ConsoleLog [LStr ''File uploaded successfully, URL:'', LStr fileUrl],
             CreateSubmissionCalled
               (JObj [(''date'', JStr today), (''message'', JStr (message st)), (''file_url'', JStr fileUrl)]),
             TableInsert ''submissions''
               [JObj [(''date'', JStr today), (''message'', JStr (message st)),
                      (''file_url'', JStr fileUrl), (''user_id'', JStr (user_id u))]],
             CreateSubmissionSettled (Inr (resp_data ri)),
             Toast \<lparr>title = ''Submission successful'',
                    description = ''Your solution has been submitted successfully.'',
                    variant = None\<rparr>]
            @ (case onSuccess of None \<Rightarrow> [] | Some c \<Rightarrow> [OnSuccessCalled])
            @ [Navigate ''/'', SetIsSubmitting False])"
proof -
  have names: "prefix (user_id u) fileName \<and> suffix (file_name f) fileName"
    by (simp add: name upload_fileName_def suffix_def)
  have today: "split_T_first isoString = today"
    using day by (simp add: split_T_first_date)
  have upload: "uploadFile P ls f fileName =
      (Inr \<lparr>path = fileName, url = fileUrl\<rparr>,
       [UploadFileCalled f fileName,
        StorageUpload ''submissions'' fileName f \<lparr>cacheControl = ''3600'', upsert = False\<rparr>,
        StorageGetPublicUrl ''submissions'' fileName,
        UploadFileSettled (Inr \<lparr>path = fileName, url = fileUrl\<rparr>)])"
    using uploadFile_success [OF cached(1) up] by (simp add: link)
  let ?sub = "JObj [(''date'', JStr today), (''message'', JStr (message st)), (''file_url'', JStr fileUrl)]"
  have create: "createSubmission P ls ?sub =
      (Inr (resp_data ri),
       [CreateSubmissionCalled ?sub,
        TableInsert ''submissions''
          [JObj [(''date'', JStr today), (''message'', JStr (message st)),
                 (''file_url'', JStr fileUrl), (''user_id'', JStr (user_id u))]],
        CreateSubmissionSettled (Inr (resp_data ri))])"
    using createSubmission_success [OF cached, of ?sub ri] ins by simp
  have "handleSubmit P ls onSuccess (Some u) isoString now st = (st\<lparr>isSubmitting := False\<rparr>,
            [PreventDefault, SetIsSubmitting True,
             ConsoleLog [LStr ''Attempting to upload file:'', LStr fileName],
             UploadFileCalled f fileName,
             StorageUpload ''submissions'' fileName f \<lparr>cacheControl = ''3600'', upsert = False\<rparr>,
             StorageGetPublicUrl ''submissions'' fileName,
             UploadFileSettled (Inr \<lparr>path = fileName, url = fileUrl\<rparr>),
             ConsoleLog [LStr ''File uploaded successfully, URL:'', LStr fileUrl],
             CreateSubmissionCalled ?sub,
             TableInsert ''submissions''
               [JObj [(''date'', JStr today), (''message'', JStr (message st)),
                      (''file_url'', JStr fileUrl), (''user_id'', JStr (user_id u))]],
             CreateSubmissionSettled (Inr (resp_data ri)),
             Toast \<lparr>title = ''Submission successful'',
                    description = ''Your solution has been submitted successfully.'',
                    variant = None\<rparr>]
            @ (case onSuccess of None \<Rightarrow> [] | Some c \<Rightarrow> [OnSuccessCalled])
            @ [Navigate ''/'', SetIsSubmitting False])"
    using cb sel upload create today name
    by (auto simp: handleSubmit_def handleSubmit_try_def handleSubmit_create_def setIsSubmitting_def Let_def)
  with names show ?thesis by blast
qed

theorem successful_submit_witness:
  "handleSubmit (example_platform (resolves_ok JNull) (resolves_ok (JObj [(''id'', JStr ''row-1'')])))
     example_storage (Some Returns) (Some example_user) ''2026-11-02T10:15:30.000Z'' 1730500000000
     (example_state (Some example_file))
   = (example_state (Some example_file),
      [PreventDefault, SetIsSubmitting True,
       ConsoleLog [LStr ''Attempting to upload file:'', LStr ''u1_1730500000000_sol.txt''],
       UploadFileCalled example_file ''u1_1730500000000_sol.txt'',
       StorageUpload ''submissions'' ''u1_1730500000000_sol.txt'' example_file
         \<lparr>cacheControl = ''3600'', upsert = False\<rparr>,
       StorageGetPublicUrl ''submissions'' ''u1_1730500000000_sol.txt'',
       UploadFileSettled
         (Inr \<lparr>path = ''u1_1730500000000_sol.txt'',
               url = ''https://cdn.example/submissions/u1_1730500000000_sol.txt''\<rparr>),
       ConsoleLog [LStr ''File uploaded successfully, URL:'',
                   LStr ''https://cdn.example/submissions/u1_1730500000000_sol.txt''],
       CreateSubmissionCalled
         (JObj [(''date'', JStr ''2026-11-02''), (''message'', JStr ''hello''),
                (''file_url'', JStr ''https://cdn.example/submissions/u1_1730500000000_sol.txt'')]),
       TableInsert ''submissions''
         [JObj [(''date'', JStr ''2026-11-02''), (''message'', JStr ''hello''),
                (''file_url'', JStr ''https://cdn.example/submissions/u1_1730500000000_sol.txt''),
                (''user_id'', JStr ''u1'')]],
       CreateSubmissionSettled (Inr (JObj [(''id'', JStr ''row-1'')])),
       Toast \<lparr>title = ''Submission successful'',
              description = ''Your solution has been submitted successfully.'',
              variant = None\<rparr>,
       OnSuccessCalled, Navigate ''/'', SetIsSubmitting False])
   \<and> prefix ''u1'' ''u1_1730500000000_sol.txt'' \<and> suffix ''sol.txt'' ''u1_1730500000000_sol.txt''"
proof -
  let ?P = "example_platform (resolves_ok JNull) (resolves_ok (JObj [(''id'', JStr ''row-1'')]))"
  let ?name = "''u1_1730500000000_sol.txt''"
  let ?url = "''https://cdn.example/submissions/u1_1730500000000_sol.txt''"
  have cached: "ToBoolean (fst (getCurrentUser ?P example_storage))"
      "get_id (fst (getCurrentUser ?P example_storage)) = Inr (JStr (user_id example_user))"
    by (simp_all add: getCurrentUser_def getCurrentUser_try_def example_defs)
  have sel: "selectedFile (example_state (Some example_file)) = Some example_file"
    by (simp add: example_state_def)
  have name: "?name = upload_fileName example_user 1730500000000 example_file"
    by (simp add: form_defs example_defs)
  have up: "storage_upload ?P ''submissions'' ?name example_file \<lparr>cacheControl = ''3600'', upsert = False\<rparr>
              = Resolves \<lparr>resp_data = JNull, resp_error = None\<rparr>"
      "resp_error \<lparr>resp_data = JNull, resp_error = None\<rparr> = None"
    by (simp_all add: example_defs)
  have link: "?url = storage_getPublicUrl ?P ''submissions'' ?name"
    by (simp add: example_defs)
  have ins: "table_insert_select_single ?P ''submissions''
                [JObj [(''date'', JStr ''2026-11-02''),
                       (''message'', JStr (message (example_state (Some example_file)))),
                       (''file_url'', JStr ?url), (''user_id'', JStr (user_id example_user))]]
              = Resolves \<lparr>resp_data = JObj [(''id'', JStr ''row-1'')], resp_error = None\<rparr>"
      "resp_error \<lparr>resp_data = JObj [(''id'', JStr ''row-1'')], resp_error = None\<rparr> = None"
    by (simp_all add: example_defs)
  have cb: "Some Returns = None \<or> Some Returns = Some Returns"
    by simp
  have day: "''2026-11-02T10:15:30.000Z'' = ''2026-11-02'' @ ''T'' @ ''10:15:30.000Z''"
      "CHR ''T'' \<notin> set ''2026-11-02''"
    by simp_all
  show ?thesis
    using successful_submit [OF cached sel name up link ins cb day]
    by (simp add: example_user_def example_file_def example_state_def)
qed

section \<open>The stub client\<close>

lemma stub_from: "stub_call (FromOp m) = (configuration_error, [])"
  by (cases m) (simp_all add: configuration_error_def)

lemma load_module_stub:
  assumes "new_URL P (supabaseUrl env_url) = Some e"
  shows "load_module P ls env_url env_key =
           (Inr StubClient, ConsoleError [LStr ''Invalid Supabase URL:'', LThrown e] # snd (getCurrentUser P ls))"
proof (cases "ToBoolean (fst (getCurrentUser P ls))")
  case True
  from get_id_truthy [OF True] obtain uid where "get_id (fst (getCurrentUser P ls)) = Inr uid" ..
  with True assms show ?thesis
    by (simp add: load_module_def createSupabaseClient_def createSupabaseClient_try_def
          addUserToRequest_def case_prod_beta)
next
  case False
  with assms show ?thesis
    by (simp add: load_module_def createSupabaseClient_def createSupabaseClient_try_def
          addUserToRequest_def case_prod_beta)
qed

text \<open>
  C8, as the code has it. When the URL does not validate, \<^verbatim>\<open>createSupabaseClient\<close> logs
  and returns the stub, and loading the module does not throw. Every table operation of
  the stub and its storage upload return the configuration error and cause no event;
  \<^verbatim>\<open>getPublicUrl\<close> returns an empty public URL without an error member, and \<^verbatim>\<open>setAuth\<close>
  returns \<^verbatim>\<open>undefined\<close>.
\<close>

theorem invalid_url_gives_stub:
  "(\<forall>e. new_URL P (supabaseUrl env_url) = Some e \<longrightarrow>
        createSupabaseClient P env_url env_key =
          (StubClient, [ConsoleError [LStr ''Invalid Supabase URL:'', LThrown e]])
        \<and> load_module P ls env_url env_key =
          (Inr StubClient,
           ConsoleError [LStr ''Invalid Supabase URL:'', LThrown e] # snd (getCurrentUser P ls)))
   \<and> stub_call (FromOp m) = (configuration_error, [])
   \<and> stub_call (StorageFromOp Upload) = (configuration_error, [])
   \<and> stub_call (StorageFromOp GetPublicUrl) = (JObj [(''data'', JObj [(''publicUrl'', JStr [])])], [])
   \<and> stub_call FunctionsSetAuthOp = (JUndefined, [])"
  by (simp add: load_module_stub stub_from)
     (simp add: createSupabaseClient_def createSupabaseClient_try_def configuration_error_def)

theorem invalid_url_gives_stub_witness:
  "new_URL (example_platform (resolves_ok JNull) (resolves_ok JNull)) (supabaseUrl (Some ''not a url''))
     = Some (Error ''Invalid URL'')
   \<and> createSupabaseClient (example_platform (resolves_ok JNull) (resolves_ok JNull)) (Some ''not a url'') None
     = (StubClient, [ConsoleError [LStr ''Invalid Supabase URL:'', LThrown (Error ''Invalid URL'')]])
   \<and> load_module (example_platform (resolves_ok JNull) (resolves_ok JNull)) example_storage (Some ''not a url'') None
     = (Inr StubClient, [ConsoleError [LStr ''Invalid Supabase URL:'', LThrown (Error ''Invalid URL'')]])"
proof -
  let ?P = "example_platform (resolves_ok JNull) (resolves_ok JNull)"
  have h: "new_URL ?P (supabaseUrl (Some ''not a url'')) = Some (Error ''Invalid URL'')"
    by (simp add: example_defs supabaseUrl_def or_default_def)
  have g: "snd (getCurrentUser ?P example_storage) = []"
    by (simp add: example_defs getCurrentUser_def getCurrentUser_try_def)
  show ?thesis
    using h g invalid_url_gives_stub [where P = ?P and env_url = "Some ''not a url''"
        and env_key = None and ls = example_storage and m = Select]
    by simp
qed

text \<open>
  C8 as stated fails: two operations of the stub do not return the configuration error.
\<close>

theorem stub_getPublicUrl_counterexample:
  "fst (stub_call (StorageFromOp GetPublicUrl)) \<noteq> configuration_error
   \<and> fst (stub_call FunctionsSetAuthOp) \<noteq> configuration_error"
  by (simp add: configuration_error_def)

end
